theory Spec2Isabelle
  imports Complex_Main "HOL-Library.Char_ord" "HOL-Library.List_Lexorder"
begin

section \<open>Host runtime\<close>

text \<open>
  Both platform modules read the host once, at module load: \<^verbatim>\<open>Platform.OS\<close>,
  \<^verbatim>\<open>Platform.isPad\<close>, the window's logical width and height and (in the navigation theme)
  \<^verbatim>\<open>StatusBar.currentHeight\<close>. A \<open>device\<close> holds these readings. JavaScript numbers are
  modelled as real numbers with exact arithmetic; \<^verbatim>\<open>NaN\<close> and the infinities are not
  values of the model. \<^verbatim>\<open>Platform.isPad\<close> is undefined off the primary OS, which
  \<^verbatim>\<open>!Platform.isPad\<close> reads as false. \<^verbatim>\<open>StatusBar.currentHeight\<close> is \<open>None\<close> where the host
  does not define it.
\<close>

record device =
  Platform_OS :: string
  Platform_isPad :: bool
  WINDOW_WIDTH :: real
  WINDOW_HEIGHT :: real
  StatusBar_currentHeight :: "real option"

section \<open>src/ui/platform/detection.js\<close>

definition IS_IOS :: "device \<Rightarrow> bool" where
  "IS_IOS d = (Platform_OS d = ''ios'')"

definition IS_ANDROID :: "device \<Rightarrow> bool" where
  "IS_ANDROID d = (Platform_OS d = ''android'')"

definition isIPhone12OrNewer :: "device \<Rightarrow> bool" where
  "isIPhone12OrNewer d =
     (if \<not> IS_IOS d then False
      else if min (WINDOW_WIDTH d) (WINDOW_HEIGHT d) < 375 then False
      else (WINDOW_HEIGHT d / WINDOW_WIDTH d > 2.1 \<or> WINDOW_WIDTH d / WINDOW_HEIGHT d > 2.1)
           \<and> WINDOW_HEIGHT d \<ge> 812)"

definition hasNotchOrDynamicIsland :: "device \<Rightarrow> bool" where
  "hasNotchOrDynamicIsland d =
     (if \<not> IS_IOS d then False
      else WINDOW_HEIGHT d \<ge> 812 \<and> \<not> Platform_isPad d)"

definition hasDynamicIsland :: "device \<Rightarrow> bool" where
  "hasDynamicIsland d =
     (if \<not> IS_IOS d then False
      else if Platform_isPad d then False
      else (let portraitWidth = min (WINDOW_WIDTH d) (WINDOW_HEIGHT d)
            in (portraitWidth = 393 \<or> portraitWidth = 430) \<and> hasNotchOrDynamicIsland d))"

definition getStatusBarHeight :: "device \<Rightarrow> real" where
  "getStatusBarHeight d =
     (if IS_IOS d then
        (if Platform_isPad d then 24
         else if hasNotchOrDynamicIsland d then 47 else 20)
      else 24)"

text \<open>
  The module's default export, with the members that \<^verbatim>\<open>visualProperties.js\<close> reads in
  the functions below. \<^verbatim>\<open>isIOS\<close> and \<^verbatim>\<open>isAndroid\<close> are stored as the boolean
  constants; \<^verbatim>\<open>isIPhone12OrNewer\<close> is stored as the function itself ("Export function
  reference, not its return value"). A member is therefore either a boolean or a function
  object, and JavaScript's truthiness test on a function object is always true.
\<close>

datatype js_member = Boolean bool | Function "unit \<Rightarrow> bool"

fun ToBoolean :: "js_member \<Rightarrow> bool" where
  "ToBoolean (Boolean b) = b"
| "ToBoolean (Function f) = True"

record detection_export =
  isIOS :: js_member
  isAndroid :: js_member
  isIPhone12OrNewer_member :: js_member

definition platformDetection :: "device \<Rightarrow> detection_export" where
  "platformDetection d =
     \<lparr> isIOS = Boolean (IS_IOS d),
       isAndroid = Boolean (IS_ANDROID d),
       isIPhone12OrNewer_member = Function (\<lambda>_. isIPhone12OrNewer d) \<rparr>"

section \<open>src/ui/navigation/theme/platform.js\<close>

text \<open>
  The navigation theme has its own detection module. Its names are prefixed with \<open>nav_\<close>
  where they coincide with names of \<^verbatim>\<open>detection.js\<close>.
\<close>

definition IS_IPHONE_X_OR_NEWER :: "device \<Rightarrow> bool" where
  "IS_IPHONE_X_OR_NEWER d =
     (IS_IOS d \<and> \<not> Platform_isPad d \<and> (WINDOW_HEIGHT d \<ge> 812 \<or> WINDOW_WIDTH d \<ge> 812))"

definition nav_hasNotch :: "device \<Rightarrow> bool" where
  "nav_hasNotch d =
     (IS_IPHONE_X_OR_NEWER d \<or>
      (IS_ANDROID d \<and> (case StatusBar_currentHeight d of None \<Rightarrow> False | Some h \<Rightarrow> h > 24)))"

definition nav_hasHomeIndicator :: "device \<Rightarrow> bool" where
  "nav_hasHomeIndicator d = IS_IPHONE_X_OR_NEWER d"

text \<open>
  \<^verbatim>\<open>getStatusBarHeight(skipAndroid = false)\<close>: an omitted argument is \<open>None\<close>.
  \<^verbatim>\<open>StatusBar.currentHeight || 0\<close> is 0 for an undefined or zero height.
\<close>

definition nav_getStatusBarHeight :: "device \<Rightarrow> bool option \<Rightarrow> real" where
  "nav_getStatusBarHeight d skipAndroid_arg =
     (let skipAndroid = (case skipAndroid_arg of None \<Rightarrow> False | Some b \<Rightarrow> b)
      in if IS_IOS d then (if nav_hasNotch d then 44 else 20)
         else if skipAndroid then 0
         else (case StatusBar_currentHeight d of
                 None \<Rightarrow> 0
               | Some h \<Rightarrow> if h \<noteq> 0 then h else 0))"

definition getBottomSpace :: "device \<Rightarrow> real" where
  "getBottomSpace d = (if nav_hasHomeIndicator d then 34 else 0)"

definition getTabBarHeight :: "device \<Rightarrow> real" where
  "getTabBarHeight d =
     (let standardHeight = (if IS_IOS d then 49 else 56)
      in standardHeight + getBottomSpace d)"

section \<open>src/ui/navigation/theme/tokens.js\<close>

text \<open>
  The leaves of \<^verbatim>\<open>navigationTokens.spacing\<close> that are computed by the platform module's
  functions (the other leaves are per-OS constants chosen by \<^verbatim>\<open>platform.select\<close>).
  \<^verbatim>\<open>platform.getStatusBarHeight()\<close> is called without an argument.
\<close>

record spacing_tokens =
  header_statusBarHeight :: real
  tabBar_height :: real
  tabBar_bottomInset :: real

definition navigationTokens_spacing :: "device \<Rightarrow> spacing_tokens" where
  "navigationTokens_spacing d =
     \<lparr> header_statusBarHeight = nav_getStatusBarHeight d None,
       tabBar_height = getTabBarHeight d,
       tabBar_bottomInset = getBottomSpace d \<rparr>"

section \<open>src/ui/platform/visualProperties.js\<close>

subsection \<open>Object literals used as lookup tables\<close>

text \<open>
  \<^verbatim>\<open>fallbackMap[variant]\<close> and \<^verbatim>\<open>weightMap[weight]\<close> read a property of an object literal.
  A key of the literal gives its own value; a key that names a member of
  \<^verbatim>\<open>Object.prototype\<close> gives that inherited member, which is a function or object and so
  truthy; any other key gives \<^verbatim>\<open>undefined\<close>.
\<close>

datatype 'a property = Own 'a | Inherited | Undefined

definition Object_prototype_keys :: "string list" where
  "Object_prototype_keys =
     [''constructor'', ''hasOwnProperty'', ''isPrototypeOf'', ''propertyIsEnumerable'',
      ''toLocaleString'', ''toString'', ''valueOf'', ''__proto__'',
      ''__defineGetter__'', ''__defineSetter__'', ''__lookupGetter__'', ''__lookupSetter__'']"

definition getProperty :: "(string \<times> 'a) list \<Rightarrow> string \<Rightarrow> 'a property" where
  "getProperty obj key =
     (case map_of obj key of
        Some v \<Rightarrow> Own v
      | None \<Rightarrow> if List.member Object_prototype_keys key then Inherited else Undefined)"

subsection \<open>getCornerRadius\<close>

text \<open>
  A \<^verbatim>\<open>size\<close> object may lack either field; \<^verbatim>\<open>size.width || 0\<close> reads an absent or zero
  field as 0. The result is a number except in the fallback branch for a variant that
  names an inherited member, where that member itself is returned.
\<close>

record SizeSpec =
  width :: "real option"
  height :: "real option"

datatype js_value = Number real | Inherited_member

definition fallbackMap :: "(string \<times> real) list" where
  "fallbackMap = [(''small'', 4), (''standard'', 8), (''large'', 12), (''pill'', 20)]"

definition or0 :: "real option \<Rightarrow> real" where
  "or0 v = (case v of None \<Rightarrow> 0 | Some x \<Rightarrow> if x \<noteq> 0 then x else 0)"

definition baseSize_of :: "SizeSpec \<Rightarrow> real" where
  "baseSize_of size_arg = min (or0 (width size_arg)) (or0 (height size_arg))"

text \<open>Lines 56 to 66: the platform-specific adjustment of \<^verbatim>\<open>scaleFactor\<close>.\<close>

definition adjustScaleFactor :: "device \<Rightarrow> real \<Rightarrow> real" where
  "adjustScaleFactor d scaleFactor =
     (if ToBoolean (isIOS (platformDetection d)) then
        (if ToBoolean (isIPhone12OrNewer_member (platformDetection d))
         then scaleFactor * 1.2 else scaleFactor)
      else if ToBoolean (isAndroid (platformDetection d)) then scaleFactor * 0.75
      else scaleFactor)"

text \<open>Lines 68 to 76: the logarithmic radius and its clamp.\<close>

definition clampedRadius :: "real \<Rightarrow> real \<Rightarrow> real \<Rightarrow> real" where
  "clampedRadius baseSize baseRadius scaleFactor =
     (let computedRadius =
            baseRadius + log 10 (max 100 baseSize) * baseSize * scaleFactor * 0.05;
          minRadius = baseRadius / 2;
          maxRadius = baseSize * 0.25
      in max minRadius (min computedRadius maxRadius))"

definition getCornerRadius :: "device \<Rightarrow> SizeSpec \<Rightarrow> string option \<Rightarrow> js_value" where
  "getCornerRadius d size_arg variant_arg =
     (let variant = (case variant_arg of None \<Rightarrow> ''standard'' | Some v \<Rightarrow> v);
          baseSize = baseSize_of size_arg
      in if baseSize = 0 then
           (case getProperty fallbackMap variant of
              Own r \<Rightarrow> if r \<noteq> 0 then Number r else Number 8
            | Inherited \<Rightarrow> Inherited_member
            | Undefined \<Rightarrow> Number 8)
         else if variant = ''small'' then
           Number (clampedRadius baseSize 4 (adjustScaleFactor d 0.08))
         else if variant = ''large'' then
           Number (clampedRadius baseSize 16 (adjustScaleFactor d 0.12))
         else if variant = ''pill'' then Number (baseSize / 2)
         else Number (clampedRadius baseSize 10 (adjustScaleFactor d 0.1)))"

subsection \<open>getShadowParams\<close>

text \<open>
  \<^verbatim>\<open>getShadowParams(elevation = 1)\<close>. The \<^verbatim>\<open>elevation\<close> key is \<open>None\<close> when it is
  \<^verbatim>\<open>undefined\<close> or, in the object built for the primary OS, not present.
  \<^verbatim>\<open>Math.pow(x, 0.7)\<close> is only reached for \<open>0 < x\<close>, where it is \<open>x powr 0.7\<close>.
\<close>

record offset =
  offset_width :: real
  offset_height :: real

record shadow =
  shadowColor :: string
  shadowOffset :: offset
  shadowOpacity :: real
  shadowRadius :: real
  elevation :: "real option"

definition getShadowParams :: "device \<Rightarrow> real option \<Rightarrow> shadow" where
  "getShadowParams d elevation_arg =
     (let normalizedElevation =
            max 0 (min 24 (case elevation_arg of None \<Rightarrow> 1 | Some e \<Rightarrow> e));
          shadow0 = \<lparr> shadowColor = ''#000'',
                      shadowOffset = \<lparr> offset_width = 0, offset_height = 0 \<rparr>,
                      shadowOpacity = 0,
                      shadowRadius = 0,
                      elevation = (if ToBoolean (isAndroid (platformDetection d))
                                   then Some normalizedElevation else None) \<rparr>
      in if normalizedElevation = 0 then shadow0
         else if ToBoolean (isIOS (platformDetection d)) then
           (let shadowRadius' = normalizedElevation powr 0.7 * 0.8;
                offsetFactor = min (normalizedElevation / 8) 1;
                shadowOffset' = \<lparr> offset_width = 0,
                                  offset_height = normalizedElevation * offsetFactor \<rparr>;
                shadowOpacity' = 0.18 - normalizedElevation / 100
            in \<lparr> shadowColor = ''#000'',
                 shadowOffset = shadowOffset',
                 shadowOpacity = shadowOpacity',
                 shadowRadius = shadowRadius',
                 elevation = None \<rparr>)
         else shadow0)"

subsection \<open>getOpticalTypography\<close>







subsection \<open>getBackdropColor\<close>

text \<open>
  \<^verbatim>\<open>[a-f\d]\<close> under the \<^verbatim>\<open>i\<close> flag accepts the digits and the letters a to f in either
  case. Both patterns are anchored and begin with \<^verbatim>\<open>#?\<close>: as \<^verbatim>\<open>#\<close> is not a hex digit,
  they match a string exactly when the rest after one optional leading \<^verbatim>\<open>#\<close> consists of
  three (respectively six) hex digits.
\<close>

definition isHexDigit :: "char \<Rightarrow> bool" where
  "isHexDigit c =
     ((CHR ''0'' \<le> c \<and> c \<le> CHR ''9'') \<or> (CHR ''a'' \<le> c \<and> c \<le> CHR ''f'')
      \<or> (CHR ''A'' \<le> c \<and> c \<le> CHR ''F''))"

definition dropHash :: "string \<Rightarrow> string" where
  "dropHash s = (case s of [] \<Rightarrow> [] | c # cs \<Rightarrow> if c = CHR ''#'' then cs else c # cs)"

fun shorthand_groups :: "string \<Rightarrow> (char \<times> char \<times> char) option" where
  "shorthand_groups [r, g, b] =
     (if isHexDigit r \<and> isHexDigit g \<and> isHexDigit b then Some (r, g, b) else None)"
| "shorthand_groups _ = None"

definition shorthandRegex :: "string \<Rightarrow> (char \<times> char \<times> char) option" where
  "shorthandRegex hex = shorthand_groups (dropHash hex)"

fun fullHex_groups :: "string \<Rightarrow> (string \<times> string \<times> string) option" where
  "fullHex_groups [r1, r2, g1, g2, b1, b2] =
     (if isHexDigit r1 \<and> isHexDigit r2 \<and> isHexDigit g1 \<and> isHexDigit g2
         \<and> isHexDigit b1 \<and> isHexDigit b2
      then Some ([r1, r2], [g1, g2], [b1, b2]) else None)"
| "fullHex_groups _ = None"

definition fullHexRegex :: "string \<Rightarrow> (string \<times> string \<times> string) option" where
  "fullHexRegex s = fullHex_groups (dropHash s)"

text \<open>\<^verbatim>\<open>parseInt(s, 16)\<close>, which the code applies to captured pairs of hex digits only.\<close>

definition hexDigitValue :: "char \<Rightarrow> nat" where
  "hexDigitValue c =
     (if CHR ''0'' \<le> c \<and> c \<le> CHR ''9'' then of_char c - 48
      else if CHR ''a'' \<le> c \<and> c \<le> CHR ''f'' then of_char c - 87
      else of_char c - 55)"

definition parseInt16 :: "string \<Rightarrow> nat" where
  "parseInt16 s = foldl (\<lambda>acc c. 16 * acc + hexDigitValue c) 0 s"

record rgb =
  rgb_r :: nat
  rgb_g :: nat
  rgb_b :: nat

definition hexToRgb :: "string \<Rightarrow> rgb" where
  "hexToRgb hex =
     (let fullHex = (case shorthandRegex hex of
                       Some (r, g, b) \<Rightarrow> [r, r, g, g, b, b]
                     | None \<Rightarrow> hex)
      in case fullHexRegex fullHex of
           Some (rr, gg, bb) \<Rightarrow>
             \<lparr> rgb_r = parseInt16 rr, rgb_g = parseInt16 gg, rgb_b = parseInt16 bb \<rparr>
         | None \<Rightarrow> \<lparr> rgb_r = 255, rgb_g = 255, rgb_b = 255 \<rparr>)"

text \<open>
  The result is the template literal \<^verbatim>\<open>rgba(r, g, b, a)\<close>; \<open>Rgba r g b a\<close> stands for that
  string with the four numbers in their places. Omitted arguments are \<open>None\<close>.
\<close>

datatype color_string = Rgba nat nat nat real

definition getBackdropColor :: "string option \<Rightarrow> real option \<Rightarrow> color_string" where
  "getBackdropColor baseColor_arg opacity_arg =
     (let baseColor = (case baseColor_arg of None \<Rightarrow> ''#FFFFFF'' | Some c \<Rightarrow> c);
          opacity = (case opacity_arg of None \<Rightarrow> 0.8 | Some x \<Rightarrow> x);
          clampedOpacity = max 0 (min 1 opacity);
          rgb = hexToRgb baseColor
      in Rgba (rgb_r rgb) (rgb_g rgb) (rgb_b rgb) clampedOpacity)"

text \<open>
  The hexadecimal digits and their values, as a table that is independent of the parser.
\<close>

definition hexTable :: "(char \<times> nat) list" where
  "hexTable =
     [(CHR ''0'', 0), (CHR ''1'', 1), (CHR ''2'', 2), (CHR ''3'', 3), (CHR ''4'', 4),
      (CHR ''5'', 5), (CHR ''6'', 6), (CHR ''7'', 7), (CHR ''8'', 8), (CHR ''9'', 9),
      (CHR ''a'', 10), (CHR ''b'', 11), (CHR ''c'', 12), (CHR ''d'', 13), (CHR ''e'', 14),
      (CHR ''f'', 15),
      (CHR ''A'', 10), (CHR ''B'', 11), (CHR ''C'', 12), (CHR ''D'', 13), (CHR ''E'', 14),
      (CHR ''F'', 15)]"

text \<open>
  A well-formed colour, stated without reference to the parser or its helpers: an
  optional \<^verbatim>\<open>#\<close> followed by exactly three or exactly six digits of the table.
\<close>

definition wellFormedHex :: "string \<Rightarrow> bool" where
  "wellFormedHex s =
     (let body = (if take 1 s = ''#'' then drop 1 s else s)
      in (length body = 3 \<or> length body = 6)
         \<and> list_all (\<lambda>c. map_of hexTable c \<noteq> None) body)"

section \<open>Sample devices\<close>

definition phone :: "real \<Rightarrow> real \<Rightarrow> device" where
  "phone w h = \<lparr> Platform_OS = ''ios'', Platform_isPad = False,
                 WINDOW_WIDTH = w, WINDOW_HEIGHT = h, StatusBar_currentHeight = None \<rparr>"

definition tablet :: "real \<Rightarrow> real \<Rightarrow> device" where
  "tablet w h = \<lparr> Platform_OS = ''ios'', Platform_isPad = True,
                  WINDOW_WIDTH = w, WINDOW_HEIGHT = h, StatusBar_currentHeight = None \<rparr>"

definition droid :: "real \<Rightarrow> real \<Rightarrow> real option \<Rightarrow> device" where
  "droid w h sb = \<lparr> Platform_OS = ''android'', Platform_isPad = False,
                    WINDOW_WIDTH = w, WINDOW_HEIGHT = h, StatusBar_currentHeight = sb \<rparr>"

section \<open>Auxiliary facts\<close>

lemma IOS_not_ANDROID: "IS_IOS d \<Longrightarrow> \<not> IS_ANDROID d"
  by (auto simp: IS_IOS_def IS_ANDROID_def)

lemma nav_hasNotch_IOS: "IS_IOS d \<Longrightarrow> nav_hasNotch d = IS_IPHONE_X_OR_NEWER d"
  by (simp add: nav_hasNotch_def IOS_not_ANDROID)

lemma log10_100: "log 10 100 = 2"
proof -
  have "log 10 (10 powr 2) = 2" by (simp only: log_powr_cancel)
  thus ?thesis by simp
qed

text \<open>
  The member \<^verbatim>\<open>isIPhone12OrNewer\<close> of the export is a function object, so the inner test
  of the adjustment succeeds on every primary-OS device.
\<close>

lemma adjustScaleFactor_IOS: "IS_IOS d \<Longrightarrow> adjustScaleFactor d s = s * 1.2"
  by (simp add: adjustScaleFactor_def platformDetection_def)

lemma or0_eq: "or0 v = (case v of None \<Rightarrow> 0 | Some x \<Rightarrow> x)"
  by (simp add: or0_def split: option.splits)

lemma clampedRadius_100: "clampedRadius 100 10 s = max 5 (min (10 + 10 * s) 25)"
  by (simp add: clampedRadius_def Let_def log10_100)

lemma shorthand_groups_Some:
  "shorthand_groups s = Some x \<Longrightarrow> length s = 3 \<and> list_all isHexDigit s"
  by (erule shorthand_groups.elims) (auto split: if_splits)

lemma fullHex_groups_Some:
  "fullHex_groups s = Some x \<Longrightarrow> length s = 6 \<and> list_all isHexDigit s"
  by (erule fullHex_groups.elims) (auto split: if_splits)

lemma fullHex_groups_pairs:
  "fullHex_groups s = Some (rr, gg, bb) \<Longrightarrow>
     length rr = 2 \<and> length gg = 2 \<and> length bb = 2
     \<and> list_all isHexDigit rr \<and> list_all isHexDigit gg \<and> list_all isHexDigit bb"
  by (erule fullHex_groups.elims) (auto split: if_splits)

lemma hexDigitValue_less: "isHexDigit c \<Longrightarrow> hexDigitValue c < 16"
  by (auto simp: isHexDigit_def hexDigitValue_def less_eq_char_def)

lemma parseInt16_pair:
  assumes "length s = 2" and "list_all isHexDigit s"
  shows "parseInt16 s < 256"
proof -
  from assms(1) obtain x y where s: "s = [x, y]"
    by (cases s; cases "tl s") auto
  with assms(2) have "hexDigitValue x < 16" "hexDigitValue y < 16"
    by (simp_all add: hexDigitValue_less)
  then show ?thesis by (simp add: s parseInt16_def)
qed

lemma hexToRgb_range:
  "rgb_r (hexToRgb c) < 256 \<and> rgb_g (hexToRgb c) < 256 \<and> rgb_b (hexToRgb c) < 256"
proof (cases "fullHexRegex (case shorthandRegex c of
                              Some (r, g, b) \<Rightarrow> [r, r, g, g, b, b] | None \<Rightarrow> c)")
  case None
  then show ?thesis by (simp add: hexToRgb_def Let_def)
next
  case (Some t)
  obtain rr gg bb where t: "t = (rr, gg, bb)" by (cases t)
  from Some t have "length rr = 2 \<and> length gg = 2 \<and> length bb = 2
     \<and> list_all isHexDigit rr \<and> list_all isHexDigit gg \<and> list_all isHexDigit bb"
    unfolding fullHexRegex_def by (auto dest: fullHex_groups_pairs)
  then show ?thesis using Some t by (simp add: hexToRgb_def Let_def parseInt16_pair)
qed

lemma hexTable_digit:
  "map_of hexTable c = Some v \<Longrightarrow> isHexDigit c \<and> hexDigitValue c = v"
  by (auto simp: hexTable_def isHexDigit_def hexDigitValue_def split: if_splits)

lemma isHexDigit_hexTable:
  assumes "isHexDigit c"
  shows "map_of hexTable c \<noteq> None"
proof -
  define n :: nat where "n = of_char c"
  have c: "c = char_of n" by (simp add: n_def)
  from assms have "(48 \<le> n \<and> n \<le> 57) \<or> (97 \<le> n \<and> n \<le> 102) \<or> (65 \<le> n \<and> n \<le> 70)"
    by (simp add: isHexDigit_def less_eq_char_def n_def)
  then have "n = 48 \<or> n = 49 \<or> n = 50 \<or> n = 51 \<or> n = 52 \<or> n = 53 \<or> n = 54 \<or> n = 55
      \<or> n = 56 \<or> n = 57 \<or> n = 97 \<or> n = 98 \<or> n = 99 \<or> n = 100 \<or> n = 101 \<or> n = 102
      \<or> n = 65 \<or> n = 66 \<or> n = 67 \<or> n = 68 \<or> n = 69 \<or> n = 70"
    by arith
  then show ?thesis unfolding c
    by (elim disjE) (simp_all add: hexTable_def char_of_def bit_Suc_0_iff)
qed

lemma isHexDigit_iff: "isHexDigit c = (map_of hexTable c \<noteq> None)"
  using isHexDigit_hexTable [of c] hexTable_digit [of c] by auto

lemma dropHash_eq: "dropHash s = (if take 1 s = ''#'' then drop 1 s else s)"
  by (cases s) (simp_all add: dropHash_def)

lemma wellFormedHex_parser:
  "wellFormedHex s =
     ((length (dropHash s) = 3 \<or> length (dropHash s) = 6) \<and> list_all isHexDigit (dropHash s))"
proof -
  have "list_all isHexDigit xs = list_all (\<lambda>c. map_of hexTable c \<noteq> None) xs" for xs
    by (induction xs) (simp_all add: isHexDigit_iff)
  then show ?thesis
    by (simp only: wellFormedHex_def Let_def dropHash_eq)
qed

lemma hexToRgb_short:
  assumes "isHexDigit r" "isHexDigit g" "isHexDigit b"
  shows "hexToRgb [r, g, b] =
           \<lparr> rgb_r = 17 * hexDigitValue r, rgb_g = 17 * hexDigitValue g,
             rgb_b = 17 * hexDigitValue b \<rparr>"
    and "hexToRgb [CHR ''#'', r, g, b] = hexToRgb [r, g, b]"
    and "hexToRgb [r, r, g, g, b, b] = hexToRgb [r, g, b]"
    and "hexToRgb [CHR ''#'', r, r, g, g, b, b] = hexToRgb [r, g, b]"
proof -
  have nh: "r \<noteq> CHR ''#''" using assms(1) by (auto simp: isHexDigit_def)
  show "hexToRgb [r, g, b] =
           \<lparr> rgb_r = 17 * hexDigitValue r, rgb_g = 17 * hexDigitValue g,
             rgb_b = 17 * hexDigitValue b \<rparr>"
    using assms nh
    by (simp add: hexToRgb_def shorthandRegex_def fullHexRegex_def dropHash_def parseInt16_def)
  show "hexToRgb [CHR ''#'', r, g, b] = hexToRgb [r, g, b]"
    using assms nh
    by (simp add: hexToRgb_def shorthandRegex_def fullHexRegex_def dropHash_def parseInt16_def)
  show "hexToRgb [r, r, g, g, b, b] = hexToRgb [r, g, b]"
    using assms nh
    by (simp add: hexToRgb_def shorthandRegex_def fullHexRegex_def dropHash_def parseInt16_def)
  show "hexToRgb [CHR ''#'', r, r, g, g, b, b] = hexToRgb [r, g, b]"
    using assms nh
    by (simp add: hexToRgb_def shorthandRegex_def fullHexRegex_def dropHash_def parseInt16_def)
qed

lemma hexToRgb_long:
  assumes "isHexDigit r1" "isHexDigit r2" "isHexDigit g1" "isHexDigit g2"
    and "isHexDigit b1" "isHexDigit b2"
  shows "hexToRgb [r1, r2, g1, g2, b1, b2] =
           \<lparr> rgb_r = 16 * hexDigitValue r1 + hexDigitValue r2,
             rgb_g = 16 * hexDigitValue g1 + hexDigitValue g2,
             rgb_b = 16 * hexDigitValue b1 + hexDigitValue b2 \<rparr>"
    and "hexToRgb [CHR ''#'', r1, r2, g1, g2, b1, b2] = hexToRgb [r1, r2, g1, g2, b1, b2]"
proof -
  have nh: "r1 \<noteq> CHR ''#''" using assms(1) by (auto simp: isHexDigit_def)
  show "hexToRgb [r1, r2, g1, g2, b1, b2] =
           \<lparr> rgb_r = 16 * hexDigitValue r1 + hexDigitValue r2,
             rgb_g = 16 * hexDigitValue g1 + hexDigitValue g2,
             rgb_b = 16 * hexDigitValue b1 + hexDigitValue b2 \<rparr>"
    using assms nh
    by (simp add: hexToRgb_def shorthandRegex_def fullHexRegex_def dropHash_def parseInt16_def)
  show "hexToRgb [CHR ''#'', r1, r2, g1, g2, b1, b2] = hexToRgb [r1, r2, g1, g2, b1, b2]"
    using assms nh
    by (simp add: hexToRgb_def shorthandRegex_def fullHexRegex_def dropHash_def parseInt16_def)
qed

lemma hexToRgb_fallback:
  assumes "\<not> wellFormedHex c"
  shows "hexToRgb c = \<lparr> rgb_r = 255, rgb_g = 255, rgb_b = 255 \<rparr>"
proof (cases "shorthandRegex c")
  case None
  have "fullHexRegex c = None"
  proof (rule ccontr)
    assume "fullHexRegex c \<noteq> None"
    then obtain t where "fullHex_groups (dropHash c) = Some t"
      by (auto simp: fullHexRegex_def)
    then have "wellFormedHex c"
      by (auto simp: wellFormedHex_parser dest: fullHex_groups_Some)
    with assms show False by simp
  qed
  with None show ?thesis by (simp add: hexToRgb_def)
next
  case (Some t)
  then have "wellFormedHex c"
    by (auto simp: shorthandRegex_def wellFormedHex_parser dest: shorthand_groups_Some)
  with assms show ?thesis by simp
qed

section \<open>Device capability detection\<close>

text \<open>
  C2. The claim: on the primary OS \<^verbatim>\<open>hasNotchOrDynamicIsland\<close> is true exactly when the
  longer window dimension is at least 812 and the device is no tablet, so that a phone
  captured in landscape (width at least 812, height below) reports true. The function
  tests \<^verbatim>\<open>WINDOW_HEIGHT\<close> alone: a primary-OS phone of 812 by 375 points reports false,
  while the navigation theme's \<^verbatim>\<open>IS_IPHONE_X_OR_NEWER\<close>, which tests both dimensions,
  is true of the same device.
\<close>

theorem hasNotchOrDynamicIsland_landscape:
  "max (WINDOW_WIDTH (phone 812 375)) (WINDOW_HEIGHT (phone 812 375)) \<ge> 812
   \<and> \<not> Platform_isPad (phone 812 375)
   \<and> \<not> hasNotchOrDynamicIsland (phone 812 375)
   \<and> IS_IPHONE_X_OR_NEWER (phone 812 375)"
  by (simp add: hasNotchOrDynamicIsland_def IS_IPHONE_X_OR_NEWER_def IS_IOS_def phone_def)

text \<open>
  C3. The claim: every status-bar-height accessor, the one behind the token tree's
  \<^verbatim>\<open>spacing.header.statusBarHeight\<close> included, gives 47 on a primary-OS device with a
  notch, 20 without, 24 on a primary-OS tablet and a fixed value on the secondary OS.
  It fails for the token tree: on a primary-OS phone of 390 by 844 points, where
  \<^verbatim>\<open>hasNotchOrDynamicIsland\<close> holds and the detection module answers 47, the token is 44;
  on a tablet it is 20; on the secondary OS it follows the host's status bar height.
\<close>

theorem statusBarHeight_token_differs:
  "hasNotchOrDynamicIsland (phone 390 844)
   \<and> getStatusBarHeight (phone 390 844) = 47
   \<and> header_statusBarHeight (navigationTokens_spacing (phone 390 844)) = 44
   \<and> header_statusBarHeight (navigationTokens_spacing (tablet 768 1024)) = 20
   \<and> header_statusBarHeight (navigationTokens_spacing (droid 360 800 (Some 30))) = 30
   \<and> header_statusBarHeight (navigationTokens_spacing (droid 360 800 (Some 48))) = 48"
  by (simp add: hasNotchOrDynamicIsland_def getStatusBarHeight_def navigationTokens_spacing_def
        nav_getStatusBarHeight_def nav_hasNotch_def IS_IPHONE_X_OR_NEWER_def IS_IOS_def
        IS_ANDROID_def phone_def tablet_def droid_def)

text \<open>
  C3, as amended. The detection module's \<^verbatim>\<open>getStatusBarHeight\<close> is 24 on a primary-OS
  tablet, on a primary-OS phone 47 when \<^verbatim>\<open>hasNotchOrDynamicIsland\<close> holds and 20 when
  not, and 24 on every other OS. The token \<^verbatim>\<open>spacing.header.statusBarHeight\<close> is the
  navigation theme's \<^verbatim>\<open>getStatusBarHeight()\<close>: on the primary OS 44 when
  \<^verbatim>\<open>IS_IPHONE_X_OR_NEWER\<close> holds and 20 otherwise, tablets included; on any other OS the
  host's \<^verbatim>\<open>StatusBar.currentHeight\<close>, or 0 when that is undefined, and 0 when the
  accessor is called with \<^verbatim>\<open>skipAndroid\<close> set.
\<close>

theorem statusBarHeight_accessors:
  "getStatusBarHeight d =
     (if IS_IOS d \<and> \<not> Platform_isPad d then (if hasNotchOrDynamicIsland d then 47 else 20)
      else 24)
   \<and> header_statusBarHeight (navigationTokens_spacing d) = nav_getStatusBarHeight d None
   \<and> nav_getStatusBarHeight d None =
       (if IS_IOS d then (if IS_IPHONE_X_OR_NEWER d then 44 else 20)
        else (case StatusBar_currentHeight d of None \<Rightarrow> 0 | Some h \<Rightarrow> h))
   \<and> nav_getStatusBarHeight d (Some True) =
       (if IS_IOS d then (if IS_IPHONE_X_OR_NEWER d then 44 else 20) else 0)"
  by (auto simp: getStatusBarHeight_def navigationTokens_spacing_def nav_getStatusBarHeight_def
        nav_hasNotch_IOS split: option.splits)

text \<open>
  C4. \<^verbatim>\<open>hasDynamicIsland\<close> is true exactly when the shorter window dimension is 393 or
  430 and \<^verbatim>\<open>hasNotchOrDynamicIsland\<close> is true. Every other shorter side gives false: a
  primary-OS phone of 400 by 850 points satisfies the notch condition and has no island.
\<close>

theorem hasDynamicIsland_whitelist:
  "hasDynamicIsland d =
     ((min (WINDOW_WIDTH d) (WINDOW_HEIGHT d) = 393 \<or> min (WINDOW_WIDTH d) (WINDOW_HEIGHT d) = 430)
      \<and> hasNotchOrDynamicIsland d)
   \<and> hasNotchOrDynamicIsland (phone 400 850) \<and> \<not> hasDynamicIsland (phone 400 850)"
  by (auto simp: hasDynamicIsland_def hasNotchOrDynamicIsland_def phone_def IS_IOS_def Let_def)

text \<open>
  C10. On every device \<^verbatim>\<open>getTabBarHeight()\<close> is the standard height of the OS, 49 on
  the primary OS and 56 otherwise, plus the bottom space, 34 when the device has a home
  indicator and 0 when not; the token \<^verbatim>\<open>spacing.tabBar.height\<close> is that sum, so it
  includes the home-indicator inset. On the secondary OS there is no home indicator and
  the height is 56.
\<close>

theorem getTabBarHeight_includes_inset:
  "tabBar_height (navigationTokens_spacing d) = getTabBarHeight d
   \<and> getTabBarHeight d = (if IS_IOS d then 49 else 56) + (if nav_hasHomeIndicator d then 34 else 0)
   \<and> getBottomSpace d = (if nav_hasHomeIndicator d then 34 else 0)
   \<and> (IS_ANDROID d \<longrightarrow> getTabBarHeight d = 56)"
  using IOS_not_ANDROID [of d]
  by (auto simp: navigationTokens_spacing_def getTabBarHeight_def getBottomSpace_def
        nav_hasHomeIndicator_def IS_IPHONE_X_OR_NEWER_def)

theorem getTabBarHeight_includes_inset_witness:
  "IS_ANDROID (droid 360 800 (Some 24))
   \<and> tabBar_height (navigationTokens_spacing (droid 360 800 (Some 24))) = 56
   \<and> nav_hasHomeIndicator (phone 390 844)
   \<and> tabBar_height (navigationTokens_spacing (phone 390 844)) = 83
   \<and> tabBar_height (navigationTokens_spacing (phone 320 568)) = 49"
  using getTabBarHeight_includes_inset [of "droid 360 800 (Some 24)"]
        getTabBarHeight_includes_inset [of "phone 390 844"]
        getTabBarHeight_includes_inset [of "phone 320 568"]
  by (simp add: IS_ANDROID_def IS_IOS_def nav_hasHomeIndicator_def IS_IPHONE_X_OR_NEWER_def
        droid_def phone_def)

section \<open>Corner radius\<close>

text \<open>
  C1. The claim: for a size with a non-zero smaller side and a variant other than pill,
  the scale factor is multiplied by 1.2 only on a primary-OS device of the modern form
  factor and is left as it is on any other primary-OS device. The test in
  \<^verbatim>\<open>getCornerRadius\<close> reads the exported function \<^verbatim>\<open>isIPhone12OrNewer\<close> without calling
  it, so it succeeds on every primary-OS device. A 320 by 568 phone is not of the modern
  form factor, yet a 100 by 100 standard container gets the radius 11.2 of the scale
  factor 0.12; the unmultiplied factor 0.1 gives 11.
\<close>

theorem getCornerRadius_ignores_form_factor:
  "IS_IOS (phone 320 568) \<and> \<not> isIPhone12OrNewer (phone 320 568)
   \<and> getCornerRadius (phone 320 568) \<lparr>width = Some 100, height = Some 100\<rparr> (Some ''standard'')
       = Number (56 / 5)
   \<and> clampedRadius 100 10 0.1 = 11"
  by (simp add: getCornerRadius_def baseSize_of_def or0_def adjustScaleFactor_IOS IS_IOS_def
        clampedRadius_100 isIPhone12OrNewer_def phone_def)

text \<open>
  C7. For the pill variant \<^verbatim>\<open>getCornerRadius\<close> returns half the smaller of width and
  height, with no platform adjustment and no clamp, when that smaller side is not 0, and
  the fallback 20 when it is 0, whatever the device; an absent side counts as 0. So a
  200 by 100 and a 100 by 200 container give 50, a 0 by 0 and a 0 by 200 one give 20, and
  a 1000 by 2 one gives 1, below every other variant's lower bound.
\<close>

theorem getCornerRadius_pill:
  "getCornerRadius d \<lparr>width = Some w, height = Some h\<rparr> (Some ''pill'')
     = (if min w h = 0 then Number 20 else Number (min w h / 2))
   \<and> getCornerRadius d \<lparr>width = wo, height = ho\<rparr> (Some ''pill'')
     = (if min (case wo of None \<Rightarrow> 0 | Some w' \<Rightarrow> w') (case ho of None \<Rightarrow> 0 | Some h' \<Rightarrow> h') = 0
        then Number 20
        else Number (min (case wo of None \<Rightarrow> 0 | Some w' \<Rightarrow> w')
                         (case ho of None \<Rightarrow> 0 | Some h' \<Rightarrow> h') / 2))
   \<and> getCornerRadius d sz (Some ''pill'')
     = (if baseSize_of sz = 0 then Number 20 else Number (baseSize_of sz / 2))
   \<and> getCornerRadius d \<lparr>width = Some 200, height = Some 100\<rparr> (Some ''pill'') = Number 50
   \<and> getCornerRadius d \<lparr>width = Some 100, height = Some 200\<rparr> (Some ''pill'') = Number 50
   \<and> getCornerRadius d \<lparr>width = Some 0, height = Some 0\<rparr> (Some ''pill'') = Number 20
   \<and> getCornerRadius d \<lparr>width = Some 0, height = Some 200\<rparr> (Some ''pill'') = Number 20
   \<and> getCornerRadius d \<lparr>width = Some 1000, height = Some 2\<rparr> (Some ''pill'') = Number 1"
proof -
  have g: "getCornerRadius d s (Some ''pill'')
             = (if baseSize_of s = 0 then Number 20 else Number (baseSize_of s / 2))" for s
    by (simp add: getCornerRadius_def getProperty_def fallbackMap_def)
  have b: "baseSize_of \<lparr>width = u, height = v\<rparr>
             = min (case u of None \<Rightarrow> 0 | Some w' \<Rightarrow> w') (case v of None \<Rightarrow> 0 | Some h' \<Rightarrow> h')"
    for u v
    by (simp add: baseSize_of_def or0_eq)
  have c1: "getCornerRadius d \<lparr>width = Some w, height = Some h\<rparr> (Some ''pill'')
     = (if min w h = 0 then Number 20 else Number (min w h / 2))"
    by (simp add: g b)
  have c2: "getCornerRadius d \<lparr>width = wo, height = ho\<rparr> (Some ''pill'')
     = (if min (case wo of None \<Rightarrow> 0 | Some w' \<Rightarrow> w') (case ho of None \<Rightarrow> 0 | Some h' \<Rightarrow> h') = 0
        then Number 20
        else Number (min (case wo of None \<Rightarrow> 0 | Some w' \<Rightarrow> w')
                         (case ho of None \<Rightarrow> 0 | Some h' \<Rightarrow> h') / 2))"
    by (simp only: g b)
  have c4: "getCornerRadius d \<lparr>width = Some 200, height = Some 100\<rparr> (Some ''pill'') = Number 50"
    by (simp add: g b)
  have c5: "getCornerRadius d \<lparr>width = Some 100, height = Some 200\<rparr> (Some ''pill'') = Number 50"
    by (simp add: g b)
  have c6: "getCornerRadius d \<lparr>width = Some 0, height = Some 0\<rparr> (Some ''pill'') = Number 20"
    by (simp add: g b)
  have c7: "getCornerRadius d \<lparr>width = Some 0, height = Some 200\<rparr> (Some ''pill'') = Number 20"
    by (simp add: g b)
  have c8: "getCornerRadius d \<lparr>width = Some 1000, height = Some 2\<rparr> (Some ''pill'') = Number 1"
    by (simp add: g b)
  from c1 c2 g [of sz] c4 c5 c6 c7 c8 show ?thesis by blast
qed

section \<open>Shadows\<close>

text \<open>
  C5. On the primary OS, for an elevation \<open>e\<close> whose clamped value \<open>n = max 0 (min 24 e)\<close>
  lies in (0, 24], \<^verbatim>\<open>getShadowParams\<close> returns the blur radius \<open>n powr 0.7 * 0.8\<close>, the
  offset of width 0 and height \<open>n * min (n / 8) 1\<close> and the opacity \<open>0.18 - n / 100\<close>,
  which is negative above 18 and is not clamped. For \<open>e\<close> up to 24 the clamped value is
  \<open>e\<close> itself.
\<close>

theorem getShadowParams_primary:
  assumes "IS_IOS d" and "0 < e"
  shows "shadowRadius (getShadowParams d (Some e)) = (max 0 (min 24 e)) powr 0.7 * 0.8
       \<and> shadowOffset (getShadowParams d (Some e)) =
           \<lparr> offset_width = 0,
             offset_height = max 0 (min 24 e) * min (max 0 (min 24 e) / 8) 1 \<rparr>
       \<and> shadowOpacity (getShadowParams d (Some e)) = 0.18 - max 0 (min 24 e) / 100
       \<and> (18 < e \<longrightarrow> shadowOpacity (getShadowParams d (Some e)) < 0)
       \<and> (e \<le> 24 \<longrightarrow> max 0 (min 24 e) = e)"
proof -
  let ?n = "max 0 (min 24 e)"
  have pos: "?n \<noteq> 0" using assms(2) by simp
  have ios: "ToBoolean (isIOS (platformDetection d))"
    using assms(1) by (simp add: platformDetection_def)
  have r: "getShadowParams d (Some e) =
        \<lparr> shadowColor = ''#000'',
          shadowOffset = \<lparr> offset_width = 0, offset_height = ?n * min (?n / 8) 1 \<rparr>,
          shadowOpacity = 0.18 - ?n / 100,
          shadowRadius = ?n powr 0.7 * 0.8,
          elevation = None \<rparr>"
    using pos ios by (simp add: getShadowParams_def Let_def)
  have neg: "18 < e \<longrightarrow> 0.18 - ?n / 100 < 0" by (auto simp: max_def min_def)
  have idn: "e \<le> 24 \<longrightarrow> ?n = e" using assms(2) by auto
  show ?thesis using neg idn by (simp add: r)
qed

theorem getShadowParams_primary_witness:
  "IS_IOS (phone 390 844) \<and> (0::real) < 20
   \<and> shadowOffset (getShadowParams (phone 390 844) (Some 20))
       = \<lparr> offset_width = 0, offset_height = 20 \<rparr>
   \<and> shadowOpacity (getShadowParams (phone 390 844) (Some 20)) = - 0.02
   \<and> shadowRadius (getShadowParams (phone 390 844) (Some 20)) = 20 powr 0.7 * 0.8"
proof -
  have h: "IS_IOS (phone 390 844)" by (simp add: IS_IOS_def phone_def)
  show ?thesis using h getShadowParams_primary [OF h, of 20] by simp
qed

text \<open>
  C6. \<^verbatim>\<open>getShadowParams\<close> clamps its argument to [0, 24]: the result for \<open>e\<close> is the
  result for the clamped value, so \<open>-5\<close> gives what 0 gives and 30 what 24 gives. The
  clamped value is what the result carries: on the secondary OS the shadow is all zero
  with the \<^verbatim>\<open>elevation\<close> key equal to \<open>max 0 (min 24 e)\<close>, and on the primary OS the
  opacity and the offset are 0 for \<open>e\<close> up to 0 and otherwise the formulas at
  \<open>max 0 (min 24 e)\<close>. At 0 the shadow is all zero on every OS: colour \<^verbatim>\<open>#000\<close>, offset
  0 by 0, opacity 0, radius 0, with the \<^verbatim>\<open>elevation\<close> key 0 on the secondary OS and
  undefined elsewhere, the primary OS included.
\<close>

theorem getShadowParams_clamp:
  "getShadowParams d (Some e) = getShadowParams d (Some (max 0 (min 24 e)))
   \<and> getShadowParams d (Some (- 5)) = getShadowParams d (Some 0)
   \<and> getShadowParams d (Some 30) = getShadowParams d (Some 24)
   \<and> getShadowParams d (Some 0) =
       \<lparr> shadowColor = ''#000'', shadowOffset = \<lparr> offset_width = 0, offset_height = 0 \<rparr>,
         shadowOpacity = 0, shadowRadius = 0,
         elevation = (if IS_ANDROID d then Some 0 else None) \<rparr>
   \<and> (IS_IOS d \<longrightarrow> elevation (getShadowParams d (Some 0)) = None)
   \<and> (IS_ANDROID d \<longrightarrow>
        getShadowParams d (Some e) =
          \<lparr> shadowColor = ''#000'', shadowOffset = \<lparr> offset_width = 0, offset_height = 0 \<rparr>,
            shadowOpacity = 0, shadowRadius = 0,
            elevation = Some (max 0 (min 24 e)) \<rparr>)
   \<and> (IS_IOS d \<longrightarrow>
        shadowOpacity (getShadowParams d (Some e)) =
          (if e \<le> 0 then 0 else 0.18 - max 0 (min 24 e) / 100)
        \<and> shadowOffset (getShadowParams d (Some e)) =
          (if e \<le> 0 then \<lparr> offset_width = 0, offset_height = 0 \<rparr>
           else \<lparr> offset_width = 0,
                  offset_height = max 0 (min 24 e) * min (max 0 (min 24 e) / 8) 1 \<rparr>))"
proof -
  have a: "getShadowParams d (Some e) = getShadowParams d (Some (max 0 (min 24 e)))
     \<and> getShadowParams d (Some (- 5)) = getShadowParams d (Some 0)
     \<and> getShadowParams d (Some 30) = getShadowParams d (Some 24)
     \<and> getShadowParams d (Some 0) =
         \<lparr> shadowColor = ''#000'', shadowOffset = \<lparr> offset_width = 0, offset_height = 0 \<rparr>,
           shadowOpacity = 0, shadowRadius = 0,
           elevation = (if IS_ANDROID d then Some 0 else None) \<rparr>
     \<and> (IS_IOS d \<longrightarrow> elevation (getShadowParams d (Some 0)) = None)"
    by (simp add: getShadowParams_def Let_def platformDetection_def IOS_not_ANDROID)
  have b: "IS_ANDROID d \<longrightarrow>
        getShadowParams d (Some e) =
          \<lparr> shadowColor = ''#000'', shadowOffset = \<lparr> offset_width = 0, offset_height = 0 \<rparr>,
            shadowOpacity = 0, shadowRadius = 0,
            elevation = Some (max 0 (min 24 e)) \<rparr>"
    using IOS_not_ANDROID [of d]
    by (auto simp: getShadowParams_def Let_def platformDetection_def)
  have c: "IS_IOS d \<longrightarrow>
        shadowOpacity (getShadowParams d (Some e)) =
          (if e \<le> 0 then 0 else 0.18 - max 0 (min 24 e) / 100)
        \<and> shadowOffset (getShadowParams d (Some e)) =
          (if e \<le> 0 then \<lparr> offset_width = 0, offset_height = 0 \<rparr>
           else \<lparr> offset_width = 0,
                  offset_height = max 0 (min 24 e) * min (max 0 (min 24 e) / 8) 1 \<rparr>)"
  proof (cases "e \<le> 0")
    case True
    then have "max 0 (min 24 e) = 0" by simp
    with True show ?thesis by (simp add: getShadowParams_def Let_def)
  next
    case False
    then have "max 0 (min 24 e) \<noteq> 0" by simp
    with False show ?thesis by (simp add: getShadowParams_def Let_def platformDetection_def)
  qed
  from a b c show ?thesis by blast
qed

theorem getShadowParams_clamp_witness:
  "IS_IOS (phone 390 844) \<and> elevation (getShadowParams (phone 390 844) (Some 0)) = None
   \<and> getShadowParams (phone 390 844) (Some 30) = getShadowParams (phone 390 844) (Some 24)
   \<and> shadowOpacity (getShadowParams (phone 390 844) (Some 30)) = - 0.06
   \<and> shadowOffset (getShadowParams (phone 390 844) (Some 4))
       = \<lparr> offset_width = 0, offset_height = 2 \<rparr>
   \<and> IS_ANDROID (droid 360 800 (Some 24))
   \<and> elevation (getShadowParams (droid 360 800 (Some 24)) (Some 16)) = Some 16
   \<and> elevation (getShadowParams (droid 360 800 (Some 24)) (Some 30)) = Some 24
   \<and> elevation (getShadowParams (droid 360 800 (Some 24)) (Some (- 5))) = Some 0"
proof -
  have i: "IS_IOS (phone 390 844)" by (simp add: IS_IOS_def phone_def)
  have a: "IS_ANDROID (droid 360 800 (Some 24))" by (simp add: IS_ANDROID_def droid_def)
  show ?thesis
    using i a
      getShadowParams_clamp [of "phone 390 844" 0]
      getShadowParams_clamp [of "phone 390 844" 30]
      getShadowParams_clamp [of "phone 390 844" 4]
      getShadowParams_clamp [of "droid 360 800 (Some 24)" 16]
      getShadowParams_clamp [of "droid 360 800 (Some 24)" 30]
      getShadowParams_clamp [of "droid 360 800 (Some 24)" "- 5"]
    by simp
qed

section \<open>Optical typography\<close>



section \<open>Backdrop colour\<close>

text \<open>
  C9. \<^verbatim>\<open>getBackdropColor\<close> returns a colour string for every string and opacity: the
  opacity is clamped to [0, 1] and the components are below 256. A three-digit colour,
  with or without the leading \<^verbatim>\<open>#\<close>, is expanded to six digits before it is parsed: it
  gives what its six-digit form gives, each component being 17 times its digit. A
  six-digit colour gives 16 times the first digit plus the second for each pair. A
  string that is not an optional \<^verbatim>\<open>#\<close> followed by three or six hex digits gives white.
  \<^verbatim>\<open>getBackdropColor('#fff', 0.5)\<close> has the components 255, 255, 255 and alpha 0.5;
  \<^verbatim>\<open>getBackdropColor('#bad', 2)\<close> has alpha 1.
\<close>

theorem getBackdropColor_total:
  "getBackdropColor (Some c) (Some x) =
     Rgba (rgb_r (hexToRgb c)) (rgb_g (hexToRgb c)) (rgb_b (hexToRgb c)) (max 0 (min 1 x))
   \<and> 0 \<le> max 0 (min 1 x) \<and> max 0 (min 1 x) \<le> 1
   \<and> rgb_r (hexToRgb c) < 256 \<and> rgb_g (hexToRgb c) < 256 \<and> rgb_b (hexToRgb c) < 256
   \<and> (\<not> wellFormedHex c \<longrightarrow>
        getBackdropColor (Some c) (Some x) = Rgba 255 255 255 (max 0 (min 1 x)))
   \<and> getBackdropColor (Some ''#fff'') (Some 0.5) = Rgba 255 255 255 0.5
   \<and> getBackdropColor (Some ''#bad'') (Some 2) = Rgba 187 170 221 1
   \<and> (map_of hexTable r = Some vr \<and> map_of hexTable g = Some vg \<and> map_of hexTable b = Some vb
        \<longrightarrow>
        getBackdropColor (Some [CHR ''#'', r, g, b]) (Some x)
          = Rgba (17 * vr) (17 * vg) (17 * vb) (max 0 (min 1 x))
        \<and> getBackdropColor (Some [r, g, b]) (Some x)
          = Rgba (17 * vr) (17 * vg) (17 * vb) (max 0 (min 1 x))
        \<and> getBackdropColor (Some [CHR ''#'', r, r, g, g, b, b]) (Some x)
          = getBackdropColor (Some [CHR ''#'', r, g, b]) (Some x)
        \<and> getBackdropColor (Some [r, r, g, g, b, b]) (Some x)
          = getBackdropColor (Some [r, g, b]) (Some x))
   \<and> (map_of hexTable r1 = Some v1 \<and> map_of hexTable r2 = Some v2
        \<and> map_of hexTable g1 = Some v3 \<and> map_of hexTable g2 = Some v4
        \<and> map_of hexTable b1 = Some v5 \<and> map_of hexTable b2 = Some v6
        \<longrightarrow>
        getBackdropColor (Some [CHR ''#'', r1, r2, g1, g2, b1, b2]) (Some x)
          = Rgba (16 * v1 + v2) (16 * v3 + v4) (16 * v5 + v6) (max 0 (min 1 x))
        \<and> getBackdropColor (Some [r1, r2, g1, g2, b1, b2]) (Some x)
          = Rgba (16 * v1 + v2) (16 * v3 + v4) (16 * v5 + v6) (max 0 (min 1 x)))"
proof -
  have ex1: "hexToRgb ''#fff'' = \<lparr> rgb_r = 255, rgb_g = 255, rgb_b = 255 \<rparr>"
    by (simp add: hexToRgb_def shorthandRegex_def fullHexRegex_def dropHash_def isHexDigit_def
          parseInt16_def hexDigitValue_def)
  have ex2: "hexToRgb ''#bad'' = \<lparr> rgb_r = 187, rgb_g = 170, rgb_b = 221 \<rparr>"
    by (simp add: hexToRgb_def shorthandRegex_def fullHexRegex_def dropHash_def isHexDigit_def
          parseInt16_def hexDigitValue_def)
  have old: "getBackdropColor (Some c) (Some x) =
       Rgba (rgb_r (hexToRgb c)) (rgb_g (hexToRgb c)) (rgb_b (hexToRgb c)) (max 0 (min 1 x))
     \<and> 0 \<le> max 0 (min 1 x) \<and> max 0 (min 1 x) \<le> 1
     \<and> rgb_r (hexToRgb c) < 256 \<and> rgb_g (hexToRgb c) < 256 \<and> rgb_b (hexToRgb c) < 256
     \<and> (\<not> wellFormedHex c \<longrightarrow>
          getBackdropColor (Some c) (Some x) = Rgba 255 255 255 (max 0 (min 1 x)))
     \<and> getBackdropColor (Some ''#fff'') (Some 0.5) = Rgba 255 255 255 0.5
     \<and> getBackdropColor (Some ''#bad'') (Some 2) = Rgba 187 170 221 1"
    using hexToRgb_range [of c] hexToRgb_fallback [of c]
    by (auto simp: getBackdropColor_def Let_def ex1 ex2)
  have short: "map_of hexTable r = Some vr \<and> map_of hexTable g = Some vg
        \<and> map_of hexTable b = Some vb \<longrightarrow>
        getBackdropColor (Some [CHR ''#'', r, g, b]) (Some x)
          = Rgba (17 * vr) (17 * vg) (17 * vb) (max 0 (min 1 x))
        \<and> getBackdropColor (Some [r, g, b]) (Some x)
          = Rgba (17 * vr) (17 * vg) (17 * vb) (max 0 (min 1 x))
        \<and> getBackdropColor (Some [CHR ''#'', r, r, g, g, b, b]) (Some x)
          = getBackdropColor (Some [CHR ''#'', r, g, b]) (Some x)
        \<and> getBackdropColor (Some [r, r, g, g, b, b]) (Some x)
          = getBackdropColor (Some [r, g, b]) (Some x)"
  proof
    assume h: "map_of hexTable r = Some vr \<and> map_of hexTable g = Some vg
        \<and> map_of hexTable b = Some vb"
    then have d: "isHexDigit r" "isHexDigit g" "isHexDigit b"
      and v: "hexDigitValue r = vr" "hexDigitValue g = vg" "hexDigitValue b = vb"
      by (simp_all add: hexTable_digit)
    show "getBackdropColor (Some [CHR ''#'', r, g, b]) (Some x)
          = Rgba (17 * vr) (17 * vg) (17 * vb) (max 0 (min 1 x))
        \<and> getBackdropColor (Some [r, g, b]) (Some x)
          = Rgba (17 * vr) (17 * vg) (17 * vb) (max 0 (min 1 x))
        \<and> getBackdropColor (Some [CHR ''#'', r, r, g, g, b, b]) (Some x)
          = getBackdropColor (Some [CHR ''#'', r, g, b]) (Some x)
        \<and> getBackdropColor (Some [r, r, g, g, b, b]) (Some x)
          = getBackdropColor (Some [r, g, b]) (Some x)"
      using v by (simp add: getBackdropColor_def Let_def hexToRgb_short [OF d])
  qed
  have long: "map_of hexTable r1 = Some v1 \<and> map_of hexTable r2 = Some v2
        \<and> map_of hexTable g1 = Some v3 \<and> map_of hexTable g2 = Some v4
        \<and> map_of hexTable b1 = Some v5 \<and> map_of hexTable b2 = Some v6
        \<longrightarrow>
        getBackdropColor (Some [CHR ''#'', r1, r2, g1, g2, b1, b2]) (Some x)
          = Rgba (16 * v1 + v2) (16 * v3 + v4) (16 * v5 + v6) (max 0 (min 1 x))
        \<and> getBackdropColor (Some [r1, r2, g1, g2, b1, b2]) (Some x)
          = Rgba (16 * v1 + v2) (16 * v3 + v4) (16 * v5 + v6) (max 0 (min 1 x))"
  proof
    assume h: "map_of hexTable r1 = Some v1 \<and> map_of hexTable r2 = Some v2
        \<and> map_of hexTable g1 = Some v3 \<and> map_of hexTable g2 = Some v4
        \<and> map_of hexTable b1 = Some v5 \<and> map_of hexTable b2 = Some v6"
    then have d: "isHexDigit r1" "isHexDigit r2" "isHexDigit g1" "isHexDigit g2"
        "isHexDigit b1" "isHexDigit b2"
      and v: "hexDigitValue r1 = v1" "hexDigitValue r2 = v2" "hexDigitValue g1 = v3"
        "hexDigitValue g2 = v4" "hexDigitValue b1 = v5" "hexDigitValue b2 = v6"
      by (simp_all add: hexTable_digit)
    show "getBackdropColor (Some [CHR ''#'', r1, r2, g1, g2, b1, b2]) (Some x)
          = Rgba (16 * v1 + v2) (16 * v3 + v4) (16 * v5 + v6) (max 0 (min 1 x))
        \<and> getBackdropColor (Some [r1, r2, g1, g2, b1, b2]) (Some x)
          = Rgba (16 * v1 + v2) (16 * v3 + v4) (16 * v5 + v6) (max 0 (min 1 x))"
      using v by (simp add: getBackdropColor_def Let_def hexToRgb_long [OF d])
  qed
  from old short long show ?thesis by blast
qed

theorem getBackdropColor_total_witness:
  "\<not> wellFormedHex ''not a colour''
   \<and> getBackdropColor (Some ''not a colour'') (Some (- 3)) = Rgba 255 255 255 0
   \<and> \<not> wellFormedHex ''#12345''
   \<and> getBackdropColor (Some ''#12345'') (Some 0.25) = Rgba 255 255 255 0.25
   \<and> \<not> wellFormedHex ''x123''
   \<and> getBackdropColor (Some ''x123'') (Some 1) = Rgba 255 255 255 1
   \<and> \<not> wellFormedHex ''#12g''
   \<and> getBackdropColor (Some ''#12g'') (Some 1) = Rgba 255 255 255 1
   \<and> getBackdropColor (Some ''#123'') (Some 1) = Rgba 17 34 51 1
   \<and> getBackdropColor (Some ''123'') (Some 1) = Rgba 17 34 51 1
   \<and> getBackdropColor (Some ''#112233'') (Some 1) = Rgba 17 34 51 1
   \<and> getBackdropColor (Some ''#1a2B3c'') (Some 7) = Rgba 26 43 60 1
   \<and> getBackdropColor (Some ''1a2B3c'') (Some 7) = Rgba 26 43 60 1"
proof -
  have w1: "\<not> wellFormedHex ''not a colour''"
    by (simp add: wellFormedHex_def)
  have w2: "\<not> wellFormedHex ''#12345''"
    by (simp add: wellFormedHex_def)
  have w3: "\<not> wellFormedHex ''x123''"
    by (simp add: wellFormedHex_def)
  have w4: "\<not> wellFormedHex ''#12g''"
    by (simp add: wellFormedHex_def hexTable_def)
  have t: "map_of hexTable CHR ''1'' = Some 1 \<and> map_of hexTable CHR ''2'' = Some 2
       \<and> map_of hexTable CHR ''3'' = Some 3"
    by (simp add: hexTable_def)
  have u: "map_of hexTable CHR ''1'' = Some 1 \<and> map_of hexTable CHR ''a'' = Some 10
       \<and> map_of hexTable CHR ''2'' = Some 2 \<and> map_of hexTable CHR ''B'' = Some 11
       \<and> map_of hexTable CHR ''3'' = Some 3 \<and> map_of hexTable CHR ''c'' = Some 12"
    by (simp add: hexTable_def)
  have f1: "getBackdropColor (Some ''not a colour'') (Some (- 3))
          = Rgba 255 255 255 (max 0 (min 1 (- 3)))"
    using w1 getBackdropColor_total [where c = "''not a colour''" and x = "- 3"] by blast
  have f2: "getBackdropColor (Some ''#12345'') (Some 0.25)
          = Rgba 255 255 255 (max 0 (min 1 0.25))"
    using w2 getBackdropColor_total [where c = "''#12345''" and x = "0.25"] by blast
  have f3: "getBackdropColor (Some ''x123'') (Some 1) = Rgba 255 255 255 (max 0 (min 1 1))"
    using w3 getBackdropColor_total [where c = "''x123''" and x = 1] by blast
  have f4: "getBackdropColor (Some ''#12g'') (Some 1) = Rgba 255 255 255 (max 0 (min 1 1))"
    using w4 getBackdropColor_total [where c = "''#12g''" and x = 1] by blast
  have s: "getBackdropColor (Some ''#123'') (Some 1) = Rgba (17 * 1) (17 * 2) (17 * 3) (max 0 (min 1 1))
        \<and> getBackdropColor (Some ''123'') (Some 1) = Rgba (17 * 1) (17 * 2) (17 * 3) (max 0 (min 1 1))
        \<and> getBackdropColor (Some ''#112233'') (Some 1) = getBackdropColor (Some ''#123'') (Some 1)"
    using t getBackdropColor_total [where x = 1 and r = "CHR ''1''" and g = "CHR ''2''"
        and b = "CHR ''3''" and vr = 1 and vg = 2 and vb = 3] by blast
  have l: "getBackdropColor (Some ''#1a2B3c'') (Some 7)
          = Rgba (16 * 1 + 10) (16 * 2 + 11) (16 * 3 + 12) (max 0 (min 1 7))
        \<and> getBackdropColor (Some ''1a2B3c'') (Some 7)
          = Rgba (16 * 1 + 10) (16 * 2 + 11) (16 * 3 + 12) (max 0 (min 1 7))"
    using u getBackdropColor_total [where x = 7 and ?r1.0 = "CHR ''1''" and ?r2.0 = "CHR ''a''"
        and ?g1.0 = "CHR ''2''" and ?g2.0 = "CHR ''B''" and ?b1.0 = "CHR ''3''"
        and ?b2.0 = "CHR ''c''" and ?v1.0 = 1 and ?v2.0 = 10 and ?v3.0 = 2 and ?v4.0 = 11
        and ?v5.0 = 3 and ?v6.0 = 12] by blast
  show ?thesis using w1 w2 w3 w4 f1 f2 f3 f4 s l by simp
qed

end
